theory Spec2Isabelle
  imports Complex_Main "HOL-Library.Word"
begin

section \<open>Rasters and the platform operators the script calls\<close>

text \<open>
  The script \<^verbatim>\<open>Mahanadi_Flood_Inundation.js\<close> is a straight-line sequence of calls into
  the Earth Engine client library. A raster is modelled by its cells on the 30 m analysis
  grid: a cell is a pair of grid indices, an image has one band (the elevation model, the
  rainfall sum and every image derived from them are single-band), and a cell of an image
  either holds a value or is masked (\<open>None\<close>). Elevation and rainfall values are reals;
  the comparisons the script makes are exact on the platform's floating-point values, so
  nothing is lost by reading those values as reals.
\<close>

type_synonym pixel = "int \<times> int"

record 'a image =
  band :: string
  px :: "pixel \<Rightarrow> 'a option"

text \<open>
  The operators below are the platform's, called by name in the script. Each is written
  out from the platform's API reference:
  \<^item> \<^verbatim>\<open>Image.gt\<close>, \<^verbatim>\<open>Image.lt\<close>: ``returns 1 if and only if the first value is greater
    (less) than the second'', per cell, the number being a constant image; a masked cell
    stays masked; the band keeps the name of the left operand.
  \<^item> \<^verbatim>\<open>Image.and\<close>: ``returns 1 if and only if both values are non-zero''; a cell masked
    in either operand is masked in the result.
  \<^item> \<^verbatim>\<open>Image.rename\<close>: renames the band.
  \<^item> \<^verbatim>\<open>Image.updateMask\<close>: a cell stays unmasked only where the mask image is unmasked
    and non-zero. \<^verbatim>\<open>Image.selfMask\<close> uses the image as its own mask.
  \<^item> \<^verbatim>\<open>Image.divide\<close> by a constant, \<^verbatim>\<open>Image.toByte\<close> (a cast to an unsigned 8-bit
    integer, saturating at 0 and 255).
\<close>

definition gt :: "real image \<Rightarrow> real \<Rightarrow> int image" where
  "gt img c = \<lparr>band = band img, px = (\<lambda>p. map_option (\<lambda>v. if v > c then 1 else 0) (px img p))\<rparr>"

definition lt :: "real image \<Rightarrow> real \<Rightarrow> int image" where
  "lt img c = \<lparr>band = band img, px = (\<lambda>p. map_option (\<lambda>v. if v < c then 1 else 0) (px img p))\<rparr>"

definition and_img :: "int image \<Rightarrow> int image \<Rightarrow> int image" where
  "and_img a b =
     \<lparr>band = band a,
      px = (\<lambda>p. case px a p of
                  None \<Rightarrow> None
                | Some x \<Rightarrow> (case px b p of
                              None \<Rightarrow> None
                            | Some y \<Rightarrow> Some (if x \<noteq> 0 \<and> y \<noteq> 0 then 1 else 0)))\<rparr>"

definition rename :: "'a image \<Rightarrow> string \<Rightarrow> 'a image" where
  "rename img name = img\<lparr>band := name\<rparr>"

definition updateMask :: "'a image \<Rightarrow> int image \<Rightarrow> 'a image" where
  "updateMask img msk =
     img\<lparr>px := (\<lambda>p. case px img p of
                      None \<Rightarrow> None
                    | Some v \<Rightarrow> (case px msk p of
                                  None \<Rightarrow> None
                                | Some m \<Rightarrow> if m \<noteq> 0 then Some v else None))\<rparr>"

definition selfMask :: "int image \<Rightarrow> int image" where
  "selfMask img = updateMask img img"

definition divide :: "real image \<Rightarrow> real \<Rightarrow> real image" where
  "divide img c = img\<lparr>px := (\<lambda>p. map_option (\<lambda>v. v / c) (px img p))\<rparr>"

definition byte_of :: "int \<Rightarrow> 8 word" where
  "byte_of v = (if v < 0 then 0 else if 255 < v then 255 else word_of_int v)"

definition toByte :: "int image \<Rightarrow> 8 word image" where
  "toByte img = \<lparr>band = band img, px = (\<lambda>p. map_option byte_of (px img p))\<rparr>"

text \<open>
  \<^verbatim>\<open>Image.reduceRegion\<close> with \<^verbatim>\<open>Reducer.sum()\<close> returns a dictionary with one entry per
  band, keyed by the band's name: the sum of the unmasked cells of the region, which is
  0 when no cell is unmasked. The region is given as the list of grid cells of the
  geometry at the requested scale; each cell counts whole. A dictionary value may be
  null on the platform (other reducers return null on an empty input), so a value is an
  option.
\<close>

type_synonym dictionary = "string \<rightharpoonup> real option"

definition region_sum :: "real image \<Rightarrow> pixel list \<Rightarrow> real" where
  "region_sum img region = sum_list (map (\<lambda>p. case px img p of None \<Rightarrow> 0 | Some v \<Rightarrow> v) region)"

definition reduceRegion_sum :: "real image \<Rightarrow> pixel list \<Rightarrow> dictionary" where
  "reduceRegion_sum img region = [band img \<mapsto> Some (region_sum img region)]"

text \<open>
  \<^verbatim>\<open>Dictionary.get\<close> fails on a key the dictionary does not have. \<^verbatim>\<open>Number.or\<close> is the
  logical disjunction of two numbers: ``returns 1 if and only if either input value is
  non-zero''; like every operator of the platform it fails when its left operand is
  null.
\<close>

datatype ee_error = MissingKey string | NullArgument string

definition dict_get :: "dictionary \<Rightarrow> string \<Rightarrow> ee_error + real option" where
  "dict_get d k = (case d k of None \<Rightarrow> Inl (MissingKey k) | Some v \<Rightarrow> Inr v)"

definition number_or :: "real option \<Rightarrow> real \<Rightarrow> ee_error + real" where
  "number_or left right =
     (case left of
        None \<Rightarrow> Inl (NullArgument ''left'')
      | Some x \<Rightarrow> Inr (if x \<noteq> 0 \<or> right \<noteq> 0 then 1 else 0))"

section \<open>Raster-to-vector conversion\<close>

text \<open>
  A feature has a geometry (null for the summary row, otherwise the grid cells its
  polygon covers) and named properties.
\<close>

datatype property = IntProp int | RealProp real

record feature =
  geometry :: "pixel list option"
  properties :: "(string \<times> property) list"

text \<open>
  Modelled from the spec: \<^verbatim>\<open>Image.reduceToVectors\<close>, the platform's raster-to-vector
  conversion, is a hosted service and not part of the repository. The spec describes it
  as ``conversion of contiguous same-valued raster regions into polygon geometries'', the
  flood polygons being ``produced by grouping contiguous true-valued pixels of the
  flood-risk mask''. The model groups the unmasked cells of the region into segments of
  equal value, and each segment becomes one feature. What the spec leaves open is taken
  from the platform's API reference: two cells touch when they differ by at most one
  step in each grid direction (the default, eight-connected neighbourhood), and a feature
  carries the cell count (the default reducer) and the segment's value under the name
  given as \<^verbatim>\<open>labelProperty\<close>. A polygon is represented by the grid cells it covers.
\<close>

text \<open>Modelled from the spec: two distinct cells are contiguous when they touch.\<close>

fun adjacent :: "pixel \<Rightarrow> pixel \<Rightarrow> bool" where
  "adjacent (x, y) (x', y') = (\<bar>x - x'\<bar> \<le> 1 \<and> \<bar>y - y'\<bar> \<le> 1 \<and> (x, y) \<noteq> (x', y'))"

text \<open>
  Modelled from the spec: a cell joins a segment of value \<open>v\<close> when it holds \<open>v\<close> and
  touches a cell of the segment.
\<close>

definition joins :: "int image \<Rightarrow> int \<Rightarrow> pixel list \<Rightarrow> pixel \<Rightarrow> bool" where
  "joins img v seg p = (px img p = Some v \<and> list_ex (\<lambda>q. adjacent q p) seg)"

text \<open>
  Modelled from the spec: a segment grows by the candidate cells that join it, until no
  candidate does.
\<close>

function grow :: "int image \<Rightarrow> int \<Rightarrow> pixel list \<Rightarrow> pixel list \<Rightarrow> pixel list" where
  "grow img v seg cand =
     (let new = filter (joins img v seg) cand in
      if new = [] then seg
      else grow img v (seg @ new) (filter (\<lambda>p. \<not> joins img v seg p) cand))"
  by pat_completeness auto
termination
proof (relation "measure (\<lambda>(img, v, seg, cand). length cand)")
  show "wf (measure (\<lambda>(img, v, seg, cand). length cand))" by simp
next
  fix img :: "int image" and v seg cand new
  assume "new = filter (joins img v seg) cand" "new \<noteq> []"
  then have "length (filter (joins img v seg) cand) > 0" by simp
  moreover have "length (filter (joins img v seg) cand)
      + length (filter (\<lambda>p. \<not> joins img v seg p) cand) = length cand"
    by (rule sum_length_filter_compl)
  ultimately show "((img, v, seg @ new, filter (\<lambda>p. \<not> joins img v seg p) cand), (img, v, seg, cand))
      \<in> measure (\<lambda>(img, v, seg, cand). length cand)"
    by (simp del: length_greater_0_conv)
qed

text \<open>
  Modelled from the spec: the segments of an image over a region, each with its value.
  A masked cell belongs to no segment; the first unmasked cell not yet taken starts the
  next segment.
\<close>

function segments :: "int image \<Rightarrow> pixel list \<Rightarrow> (int \<times> pixel list) list" where
  "segments img [] = []"
| "segments img (p # ps) =
     (case px img p of
        None \<Rightarrow> segments img ps
      | Some v \<Rightarrow> (let seg = grow img v [p] ps
                   in (v, seg) # segments img (filter (\<lambda>q. q \<notin> set seg) ps)))"
  by pat_completeness auto
termination
  by (relation "measure (\<lambda>(img, cs). length cs)") (auto simp: less_Suc_eq_le)

text \<open>Modelled from the spec: one feature per segment.\<close>

definition reduceToVectors :: "int image \<Rightarrow> pixel list \<Rightarrow> string \<Rightarrow> feature list" where
  "reduceToVectors img region labelProperty =
     map (\<lambda>(v, seg). \<lparr>geometry = Some seg,
                       properties = [(''count'', IntProp (int (length seg))), (labelProperty, IntProp v)]\<rparr>)
       (segments img region)"

text \<open>
  A set of cells is contiguous when any two of its cells are linked by a chain of
  touching cells of the set.
\<close>

definition contiguous :: "pixel set \<Rightarrow> bool" where
  "contiguous T = (\<forall>p\<in>T. \<forall>q\<in>T. (p, q) \<in> {(a, b). a \<in> T \<and> b \<in> T \<and> adjacent a b}\<^sup>*)"

section \<open>The script\<close>

text \<open>
  The inputs of a run are what the platform returns for the three dataset queries
  (\<^verbatim>\<open>dem\<close>, \<^verbatim>\<open>rain\<close> and \<^verbatim>\<open>s1\<close>, lines 17 to 35, each already clipped to the area of
  interest), the area in square metres that \<^verbatim>\<open>ee.Image.pixelArea()\<close> gives each cell, and
  the cells of the area of interest on the 30 m grid.
\<close>

record inputs =
  dem :: "real image"
  rain :: "real image"
  s1 :: "real image"
  cellArea :: "pixel \<Rightarrow> real"
  cells :: "pixel list"

definition aoi :: "(real \<times> real) list list" where
  "aoi = [[(84.0, 19.0), (84.0, 22.0), (87.0, 22.0), (87.0, 19.0), (84.0, 19.0)]]"

text \<open>Line 39: \<^verbatim>\<open>var heavyRain = rain.gt(200).rename('HeavyRain')\<close>.\<close>

definition heavyRain :: "inputs \<Rightarrow> int image" where
  "heavyRain i = rename (gt (rain i) 200) ''HeavyRain''"

text \<open>Line 43: \<^verbatim>\<open>var floodRisk = dem.lt(50).and(heavyRain).rename('FloodRisk')\<close>.\<close>

definition floodRisk :: "inputs \<Rightarrow> int image" where
  "floodRisk i = rename (and_img (lt (dem i) 50) (heavyRain i)) ''FloodRisk''"

text \<open>
  Lines 47 to 54. \<^verbatim>\<open>ee.Image.pixelArea()\<close> has the single band \<^verbatim>\<open>area\<close>; the dictionary
  of the reduction is read at that key, and the number read is passed to
  \<^verbatim>\<open>.or(0)\<close>.
\<close>

definition pixelArea :: "inputs \<Rightarrow> real image" where
  "pixelArea i = \<lparr>band = ''area'', px = (\<lambda>p. Some (cellArea i p))\<rparr>"

definition pixelAreaKm2 :: "inputs \<Rightarrow> real image" where
  "pixelAreaKm2 i = divide (pixelArea i) 1000000"

definition floodArea :: "inputs \<Rightarrow> dictionary" where
  "floodArea i = reduceRegion_sum (updateMask (pixelAreaKm2 i) (floodRisk i)) (cells i)"

definition area_scalar :: "dictionary \<Rightarrow> ee_error + real" where
  "area_scalar d = (case dict_get d ''area'' of Inl e \<Rightarrow> Inl e | Inr v \<Rightarrow> number_or v 0)"

definition floodArea_km2 :: "inputs \<Rightarrow> ee_error + real" where
  "floodArea_km2 i = area_scalar (floodArea i)"

text \<open>
  Lines 58 to 64: \<^verbatim>\<open>floodRisk.selfMask().reduceToVectors({geometry: aoi, scale: 30,
  geometryType: 'polygon', labelProperty: 'flood', maxPixels: 1e13})\<close>.
\<close>

definition floodVectors :: "inputs \<Rightarrow> feature list" where
  "floodVectors i = reduceToVectors (selfMask (floodRisk i)) (cells i) ''flood''"

text \<open>The cells of the area of interest where the flood-risk mask is true.\<close>

definition flooded :: "inputs \<Rightarrow> pixel list" where
  "flooded i = filter (\<lambda>p. px (floodRisk i) p = Some 1) (cells i)"

text \<open>
  What the script shows: the layers added to the map, in order, each with its name (the
  colours and value ranges are left out), and the printed line (line 55; its label ends
  in a superscript two in the source, written \<open>^2\<close> here).
\<close>

datatype layer =
    GeometryLayer "(real \<times> real) list list" string
  | ImageLayer "real image" string
  | MaskLayer "int image" string
  | VectorLayer "feature list" string

definition layers :: "inputs \<Rightarrow> layer list" where
  "layers i =
     [GeometryLayer aoi ''AOI: Mahanadi Basin'',
      ImageLayer (dem i) ''DEM'',
      ImageLayer (rain i) ''Total Rainfall July 2022'',
      ImageLayer (s1 i) ''Sentinel-1 VV'',
      MaskLayer (updateMask (heavyRain i) (heavyRain i)) ''Rainfall > 200mm'',
      MaskLayer (updateMask (floodRisk i) (floodRisk i)) ''Potential Flood Zones'',
      VectorLayer (floodVectors i) ''Flood-prone Polygons'']"

definition printed :: "inputs \<Rightarrow> (string \<times> (ee_error + real)) list" where
  "printed i = [(''Flood-prone area (km^2):'', floodArea_km2 i)]"

text \<open>
  Lines 68 to 94, the three export requests. An image export carries the image, the
  description, the folder, the file name prefix, the region, the scale and the pixel
  budget; a table export carries the collection, the description, the folder, the file
  name prefix and the file format. A collection whose value cannot be computed is the
  error of that computation.
\<close>

datatype export_job =
    ImageToDrive "8 word image" string string string "(real \<times> real) list list" real real
  | TableToDrive "ee_error + feature list" string string string string

definition summary :: "inputs \<Rightarrow> ee_error + feature list" where
  "summary i =
     (case floodArea_km2 i of
        Inl e \<Rightarrow> Inl e
      | Inr a \<Rightarrow> Inr [\<lparr>geometry = None, properties = [(''FloodArea_km2'', RealProp a)]\<rparr>])"

definition exports :: "inputs \<Rightarrow> export_job list" where
  "exports i =
     [ImageToDrive (toByte (floodRisk i)) ''MahanadiBasin_FloodRiskRaster'' ''GEE_Exports''
        ''MahanadiBasin_FloodRiskRaster'' aoi 30 (10 ^ 13),
      TableToDrive (Inr (floodVectors i)) ''MahanadiBasin_FloodRiskPolygons'' ''GEE_Exports''
        ''MahanadiBasin_FloodRiskPolygons'' ''SHP'',
      TableToDrive (summary i) ''MahanadiBasin_FloodAreaSummary'' ''GEE_Exports''
        ''MahanadiBasin_FloodAreaSummary'' ''CSV'']"

section \<open>Example runs\<close>

text \<open>
  A run over a single cell with elevation \<open>e\<close> and rainfall sum \<open>r\<close>, and a run over a
  two-by-two grid of 900 square metre cells under 250 mm of rain, three cells at 10 m and
  one at 60 m; \<open>radar\<close> is some radar image.
\<close>

definition run_cell :: "real \<Rightarrow> real \<Rightarrow> inputs" where
  "run_cell e r =
     \<lparr>dem = \<lparr>band = ''elevation'', px = (\<lambda>p. if p = (0, 0) then Some e else None)\<rparr>,
      rain = \<lparr>band = ''precipitation'', px = (\<lambda>p. if p = (0, 0) then Some r else None)\<rparr>,
      s1 = \<lparr>band = ''VV'', px = (\<lambda>p. None)\<rparr>,
      cellArea = (\<lambda>p. 900),
      cells = [(0, 0)]\<rparr>"

definition run_grid :: inputs where
  "run_grid =
     \<lparr>dem = \<lparr>band = ''elevation'',
              px = (\<lambda>p. if p \<in> set [(0, 0), (1, 0), (0, 1), (1, 1)]
                         then Some (if p = (1, 1) then 60 else 10) else None)\<rparr>,
      rain = \<lparr>band = ''precipitation'',
               px = (\<lambda>p. if p \<in> set [(0, 0), (1, 0), (0, 1), (1, 1)] then Some 250 else None)\<rparr>,
      s1 = \<lparr>band = ''VV'', px = (\<lambda>p. None)\<rparr>,
      cellArea = (\<lambda>p. 900),
      cells = [(0, 0), (1, 0), (0, 1), (1, 1)]\<rparr>"

definition radar :: "real image" where
  "radar = \<lparr>band = ''VV'', px = (\<lambda>p. Some (- 12))\<rparr>"

section \<open>Properties of the masks\<close>

lemma px_heavyRain: "px (heavyRain i) p = map_option (\<lambda>r. if 200 < r then 1 else 0) (px (rain i) p)"
  by (simp add: heavyRain_def rename_def gt_def)

lemma px_floodRisk:
  "px (floodRisk i) p =
     (case px (dem i) p of
        None \<Rightarrow> None
      | Some e \<Rightarrow> (case px (rain i) p of
                    None \<Rightarrow> None
                  | Some r \<Rightarrow> Some (if e < 50 \<and> 200 < r then 1 else 0)))"
  by (simp add: floodRisk_def rename_def and_img_def lt_def px_heavyRain split: option.splits)

lemma floodRisk_binary: "px (floodRisk i) p = None \<or> px (floodRisk i) p = Some 0 \<or> px (floodRisk i) p = Some 1"
  by (simp add: px_floodRisk split: option.splits)

text \<open>
  C1. At every cell that has an elevation \<open>e\<close> and a rainfall sum \<open>r\<close>, the flood-risk mask
  is 1 (true) exactly when \<open>e < 50\<close> and \<open>r > 200\<close>, and 0 (false) otherwise.
\<close>

theorem floodRisk_iff_thresholds:
  assumes "px (dem i) p = Some e" and "px (rain i) p = Some r"
  shows "px (floodRisk i) p = Some (if e < 50 \<and> 200 < r then 1 else 0)"
  using assms by (simp add: px_floodRisk)

text \<open>The four quadrants around the thresholds, on single-cell runs.\<close>

theorem floodRisk_quadrants:
  "px (floodRisk (run_cell 49 201)) (0, 0) = Some 1 \<and>
   px (floodRisk (run_cell 50 201)) (0, 0) = Some 0 \<and>
   px (floodRisk (run_cell 49 200)) (0, 0) = Some 0 \<and>
   px (floodRisk (run_cell 51 199)) (0, 0) = Some 0"
  using floodRisk_iff_thresholds [of "run_cell 49 201" "(0, 0)" 49 201]
    floodRisk_iff_thresholds [of "run_cell 50 201" "(0, 0)" 50 201]
    floodRisk_iff_thresholds [of "run_cell 49 200" "(0, 0)" 49 200]
    floodRisk_iff_thresholds [of "run_cell 51 199" "(0, 0)" 51 199]
  by (simp add: run_cell_def)

text \<open>
  C4. At a cell with rainfall sum \<open>r\<close> the heavy-rainfall mask is 1 when \<open>r > 200\<close> and 0
  when \<open>r \<le> 200\<close>; it is monotonic: a cell with at least as much rain has at least as
  large a mask value.
\<close>

theorem heavyRain_threshold_monotone:
  assumes "px (rain i) p = Some r" and "px (rain j) q = Some r'" and "r \<le> r'"
  shows "px (heavyRain i) p = Some (if 200 < r then 1 else 0) \<and>
         (\<exists>m m'. px (heavyRain i) p = Some m \<and> px (heavyRain j) q = Some m' \<and> m \<le> m')"
  using assms by (simp add: px_heavyRain)

theorem heavyRain_threshold_examples:
  "px (heavyRain (run_cell 10 100)) (0, 0) = Some 0 \<and>
   px (heavyRain (run_cell 10 200)) (0, 0) = Some 0 \<and>
   px (heavyRain (run_cell 10 201)) (0, 0) = Some 1 \<and>
   (\<exists>m m'. px (heavyRain (run_cell 10 100)) (0, 0) = Some m \<and>
            px (heavyRain (run_cell 10 201)) (0, 0) = Some m' \<and> m \<le> m')"
  using heavyRain_threshold_monotone [of "run_cell 10 100" "(0, 0)" 100 "run_cell 10 201" "(0, 0)" 201]
    heavyRain_threshold_monotone [of "run_cell 10 200" "(0, 0)" 200 "run_cell 10 201" "(0, 0)" 201]
    heavyRain_threshold_monotone [of "run_cell 10 201" "(0, 0)" 201 "run_cell 10 201" "(0, 0)" 201]
  by (simp add: run_cell_def)

lemma byte_of_binary: "byte_of 0 = 0" "byte_of 1 = 1"
  by (simp_all add: byte_of_def)

text \<open>
  C9. The flood-risk mask is binary: an unmasked cell holds 0 or 1. The cast to bytes
  made for the raster export keeps every cell (reading the byte back as a number gives
  the mask's value, a masked cell stays masked) and the band.
\<close>

theorem floodRisk_binary_byte_lossless:
  "(px (floodRisk i) p = None \<or> px (floodRisk i) p = Some 0 \<or> px (floodRisk i) p = Some 1) \<and>
   map_option uint (px (toByte (floodRisk i)) p) = px (floodRisk i) p \<and>
   band (toByte (floodRisk i)) = band (floodRisk i)"
  using floodRisk_binary [of i p]
  by (auto simp: toByte_def byte_of_binary)

theorem floodRisk_byte_examples:
  "px (toByte (floodRisk (run_cell 49 201))) (0, 0) = Some 1 \<and>
   px (toByte (floodRisk (run_cell 50 201))) (0, 0) = Some 0 \<and>
   px (toByte (floodRisk (run_cell 49 201))) (1, 0) = None"
  using floodRisk_binary_byte_lossless [of "run_cell 49 201" "(0, 0)"]
    floodRisk_binary_byte_lossless [of "run_cell 50 201" "(0, 0)"]
    floodRisk_binary_byte_lossless [of "run_cell 49 201" "(1, 0)"]
  by (simp add: px_floodRisk run_cell_def toByte_def byte_of_binary)

section \<open>The flood area\<close>

text \<open>
  The region reduction itself is right: the dictionary holds, under \<^verbatim>\<open>area\<close>, the sum of
  the cell areas in square kilometres over the cells where the mask is true, and 0 when
  there is none.
\<close>

lemma band_masked_area: "band (updateMask (pixelAreaKm2 i) (floodRisk i)) = ''area''"
  by (simp add: updateMask_def pixelAreaKm2_def divide_def pixelArea_def)

lemma px_masked_area:
  "px (updateMask (pixelAreaKm2 i) (floodRisk i)) p =
     (if px (floodRisk i) p = Some 1 then Some (cellArea i p / 1000000) else None)"
  using floodRisk_binary [of i p]
  by (auto simp: updateMask_def pixelAreaKm2_def divide_def pixelArea_def)

lemma sum_list_filter_conv:
  "sum_list (map (\<lambda>p. if P p then f p else (0::real)) xs) = sum_list (map f (filter P xs))"
  by (induction xs) auto

lemma region_sum_flooded:
  "region_sum (updateMask (pixelAreaKm2 i) (floodRisk i)) (cells i) =
     sum_list (map (\<lambda>p. cellArea i p / 1000000) (flooded i))"
proof -
  have "(\<lambda>p. case px (updateMask (pixelAreaKm2 i) (floodRisk i)) p of None \<Rightarrow> 0 | Some v \<Rightarrow> v)
      = (\<lambda>p. if px (floodRisk i) p = Some 1 then cellArea i p / 1000000 else 0)"
    by (rule ext) (simp add: px_masked_area)
  then show ?thesis
    by (simp add: region_sum_def flooded_def sum_list_filter_conv)
qed

lemma floodArea_value:
  "floodArea i = [''area'' \<mapsto> Some (sum_list (map (\<lambda>p. cellArea i p / 1000000) (flooded i)))]"
  by (simp add: floodArea_def reduceRegion_sum_def band_masked_area region_sum_flooded)

text \<open>
  The scalar the script goes on with is not that sum: \<^verbatim>\<open>.or(0)\<close> turns it into 1 when it
  is not zero.
\<close>

lemma floodArea_km2_value:
  "floodArea_km2 i = Inr (if sum_list (map (\<lambda>p. cellArea i p / 1000000) (flooded i)) = 0 then 0 else 1)"
  by (simp add: floodArea_km2_def area_scalar_def dict_get_def number_or_def floodArea_value)

lemma flooded_run_grid: "flooded run_grid = [(0, 0), (1, 0), (0, 1)]"
  by (simp add: flooded_def px_floodRisk run_grid_def)

text \<open>
  C2. The claim: the flood-area scalar that is printed and written to the summary export
  is the sum, in square kilometres, of the cell areas over the cells where the mask is
  true. On the two-by-two run three cells of 900 square metres are flooded, 0.0027 square
  kilometres, and the dictionary of the reduction holds that number; the scalar, the
  printed value and the summary row hold 1.
\<close>

theorem floodArea_km2_not_the_area:
  "sum_list (map (\<lambda>p. cellArea run_grid p / 1000000) (flooded run_grid)) = 27 / 10000 \<and>
   floodArea run_grid ''area'' = Some (Some (27 / 10000)) \<and>
   floodArea_km2 run_grid = Inr 1 \<and>
   printed run_grid = [(''Flood-prone area (km^2):'', Inr 1)] \<and>
   summary run_grid = Inr [\<lparr>geometry = None, properties = [(''FloodArea_km2'', RealProp 1)]\<rparr>]"
proof -
  have s: "sum_list (map (\<lambda>p. cellArea run_grid p / 1000000) (flooded run_grid)) = 27 / 10000"
    by (simp add: flooded_run_grid) (simp add: run_grid_def)
  have a: "floodArea_km2 run_grid = Inr 1"
    by (simp add: floodArea_km2_value s)
  show ?thesis
    by (simp add: s a floodArea_value printed_def summary_def)
qed




section \<open>The flood polygons\<close>

lemma joins_iff: "joins img v seg p \<longleftrightarrow> px img p = Some v \<and> (\<exists>q\<in>set seg. adjacent q p)"
  by (simp add: joins_def list_ex_iff)

lemma grow_unfold:
  "grow img v seg cand =
     (if filter (joins img v seg) cand = [] then seg
      else grow img v (seg @ filter (joins img v seg) cand) (filter (\<lambda>p. \<not> joins img v seg p) cand))"
  by (subst grow.simps) (simp add: Let_def)

declare grow.simps [simp del]

lemma grow_keeps: "set seg \<subseteq> set (grow img v seg cand)"
proof (induction img v seg cand rule: grow.induct)
  case (1 img v seg cand)
  show ?case
  proof (cases "filter (joins img v seg) cand = []")
    case True
    then show ?thesis by (subst grow_unfold) simp
  next
    case False
    with "1.IH" [OF refl False]
    show ?thesis by (subst grow_unfold) auto
  qed
qed

lemma grow_from: "set (grow img v seg cand) \<subseteq> set seg \<union> {p \<in> set cand. px img p = Some v}"
proof (induction img v seg cand rule: grow.induct)
  case (1 img v seg cand)
  show ?case
  proof (cases "filter (joins img v seg) cand = []")
    case True
    then show ?thesis by (subst grow_unfold) simp
  next
    case False
    with "1.IH" [OF refl False]
    show ?thesis by (subst grow_unfold) (auto simp: joins_iff)
  qed
qed

lemma grow_closed:
  "p \<in> set cand \<Longrightarrow> px img p = Some v \<Longrightarrow> q \<in> set (grow img v seg cand) \<Longrightarrow> adjacent q p
     \<Longrightarrow> p \<in> set (grow img v seg cand)"
proof (induction img v seg cand rule: grow.induct)
  case (1 img v seg cand)
  show ?case
  proof (cases "filter (joins img v seg) cand = []")
    case True
    then have g: "grow img v seg cand = seg" by (subst grow_unfold) simp
    with "1.prems" have "joins img v seg p" by (auto simp: joins_iff)
    with "1.prems"(1) True show ?thesis by (auto simp: filter_empty_conv)
  next
    case False
    then have g: "grow img v seg cand =
        grow img v (seg @ filter (joins img v seg) cand) (filter (\<lambda>p. \<not> joins img v seg p) cand)"
      by (subst grow_unfold) simp
    show ?thesis
    proof (cases "joins img v seg p")
      case True
      with "1.prems"(1) have "p \<in> set (seg @ filter (joins img v seg) cand)" by simp
      then show ?thesis using grow_keeps g by (metis subsetD)
    next
      case nj: False
      with "1.prems"(1) have "p \<in> set (filter (\<lambda>p. \<not> joins img v seg p) cand)" by simp
      from "1.IH" [OF refl False this "1.prems"(2) _ "1.prems"(4)] "1.prems"(3) g
      show ?thesis by simp
    qed
  qed
qed

lemma segments_masked: "\<forall>p\<in>set cs. px img p = None \<Longrightarrow> segments img cs = []"
  by (induction cs) auto

lemma segments_label: "(v, seg) \<in> set (segments img cs) \<Longrightarrow> seg \<noteq> [] \<and> set seg \<subseteq> {p \<in> set cs. px img p = Some v}"
proof (induction img cs rule: segments.induct)
  case (1 img)
  then show ?case by simp
next
  case (2 img p ps)
  show ?case
  proof (cases "px img p")
    case None
    with 2 show ?thesis by auto
  next
    case (Some w)
    let ?g = "grow img w [p] ps"
    from "2.prems" Some have "(v, seg) = (w, ?g) \<or> (v, seg) \<in> set (segments img (filter (\<lambda>q. q \<notin> set ?g) ps))"
      by (simp add: Let_def)
    then show ?thesis
    proof
      assume "(v, seg) = (w, ?g)"
      then have "v = w" "seg = ?g" by simp_all
      moreover have "p \<in> set ?g" using grow_keeps [of "[p]" img w ps] by simp
      moreover have "set ?g \<subseteq> set [p] \<union> {q \<in> set ps. px img q = Some w}" by (rule grow_from)
      ultimately show ?thesis using Some by auto
    next
      assume "(v, seg) \<in> set (segments img (filter (\<lambda>q. q \<notin> set ?g) ps))"
      from "2.IH"(2) [OF Some refl this] show ?thesis by auto
    qed
  qed
qed

lemma reach_in_grow:
  assumes "(p, q) \<in> {(a, b). a \<in> T \<and> b \<in> T \<and> adjacent a b}\<^sup>*"
    and "T \<subseteq> insert p (set ps)" and "\<forall>t\<in>T. px img t = Some v"
  shows "q \<in> set (grow img v [p] ps)"
  using assms(1)
proof (induction rule: rtrancl_induct)
  case base
  show ?case using grow_keeps [of "[p]" img v ps] by simp
next
  case (step a b)
  then have ab: "a \<in> T" "b \<in> T" "adjacent a b" by auto
  show ?case
  proof (cases "b = p")
    case True
    then show ?thesis using grow_keeps [of "[p]" img v ps] by simp
  next
    case False
    with ab assms(2) have "b \<in> set ps" by auto
    moreover have "px img b = Some v" using ab assms(3) by simp
    ultimately show ?thesis using step.IH ab(3) by (rule grow_closed)
  qed
qed

lemma segments_single:
  assumes "{p \<in> set cs. px img p \<noteq> None} \<noteq> {}"
    and "\<forall>p\<in>set cs. px img p = None \<or> px img p = Some v"
    and "contiguous {p \<in> set cs. px img p \<noteq> None}"
  shows "\<exists>seg. segments img cs = [(v, seg)] \<and> set seg = {p \<in> set cs. px img p \<noteq> None}"
  using assms
proof (induction cs)
  case Nil
  then show ?case by simp
next
  case (Cons c cs)
  show ?case
  proof (cases "px img c")
    case None
    then have eq: "{p \<in> set (c # cs). px img p \<noteq> None} = {p \<in> set cs. px img p \<noteq> None}" by auto
    from Cons.prems Cons.IH eq None show ?thesis by auto
  next
    case (Some w)
    with Cons.prems(2) have w: "w = v" by auto
    let ?T = "{p \<in> set (c # cs). px img p \<noteq> None}"
    let ?g = "grow img v [c] cs"
    have cT: "c \<in> ?T" using Some by simp
    have allv: "\<forall>t\<in>?T. px img t = Some v" using Cons.prems(2) by auto
    have sub: "?T \<subseteq> insert c (set cs)" by auto
    have "?T \<subseteq> set ?g"
    proof
      fix q assume "q \<in> ?T"
      with Cons.prems(3) cT have "(c, q) \<in> {(a, b). a \<in> ?T \<and> b \<in> ?T \<and> adjacent a b}\<^sup>*"
        unfolding contiguous_def by blast
      then show "q \<in> set ?g" using sub allv by (rule reach_in_grow)
    qed
    moreover have "set ?g \<subseteq> ?T"
      using grow_from [of img v "[c]" cs] Some by auto
    ultimately have gT: "set ?g = ?T" by blast
    have "\<forall>p\<in>set (filter (\<lambda>q. q \<notin> set ?g) cs). px img p = None"
      using gT by auto
    then have "segments img (filter (\<lambda>q. q \<notin> set ?g) cs) = []" by (rule segments_masked)
    with gT Some w show ?thesis by (simp add: Let_def)
  qed
qed

lemma px_selfMask_floodRisk:
  "px (selfMask (floodRisk i)) p = (if px (floodRisk i) p = Some 1 then Some 1 else None)"
  using floodRisk_binary [of i p]
  by (auto simp: selfMask_def updateMask_def)

lemma unmasked_selfMask: "{p \<in> set (cells i). px (selfMask (floodRisk i)) p \<noteq> None} = set (flooded i)"
  by (auto simp: px_selfMask_floodRisk flooded_def)

lemma floodVectors_run_grid:
  "floodVectors run_grid =
     [\<lparr>geometry = Some [(0, 0), (1, 0), (0, 1)],
       properties = [(''count'', IntProp 3), (''flood'', IntProp 1)]\<rparr>]"
  by code_simp

lemma floodVectors_run_cell_dry: "floodVectors (run_cell 10 100) = []"
  by code_simp

lemma contiguous_pairwise: "(\<forall>p\<in>T. \<forall>q\<in>T. p \<noteq> q \<longrightarrow> adjacent p q) \<Longrightarrow> contiguous T"
  unfolding contiguous_def
proof (intro ballI)
  fix p q
  assume a: "\<forall>p\<in>T. \<forall>q\<in>T. p \<noteq> q \<longrightarrow> adjacent p q" and p: "p \<in> T" and q: "q \<in> T"
  show "(p, q) \<in> {(a, b). a \<in> T \<and> b \<in> T \<and> adjacent a b}\<^sup>*"
  proof (cases "p = q")
    case True
    then show ?thesis by simp
  next
    case False
    with a p q have "(p, q) \<in> {(a, b). a \<in> T \<and> b \<in> T \<and> adjacent a b}" by simp
    then show ?thesis by (rule r_into_rtrancl)
  qed
qed

lemma contiguous_run_grid: "contiguous (set (flooded run_grid))"
  by (rule contiguous_pairwise) (simp add: flooded_run_grid)

lemma flooded_run_cell_dry: "flooded (run_cell 10 100) = []"
  by (simp add: flooded_def px_floodRisk run_cell_def)

text \<open>
  C5. Vectorization of a flood-risk mask with no true cell gives the empty collection.
  When the true cells form one non-empty contiguous set, it gives exactly one polygon,
  which covers exactly the true cells of the 30 m grid.
\<close>

theorem floodVectors_empty_or_single:
  "(set (flooded i) = {} \<longrightarrow> floodVectors i = []) \<and>
   (set (flooded i) \<noteq> {} \<and> contiguous (set (flooded i)) \<longrightarrow>
      (\<exists>seg. floodVectors i =
                [\<lparr>geometry = Some seg,
                  properties = [(''count'', IntProp (int (length seg))), (''flood'', IntProp 1)]\<rparr>]
             \<and> set seg = set (flooded i)))"
proof (intro conjI impI)
  assume "set (flooded i) = {}"
  then have "\<forall>p\<in>set (cells i). px (selfMask (floodRisk i)) p = None"
    by (auto simp: px_selfMask_floodRisk flooded_def filter_empty_conv)
  then have "segments (selfMask (floodRisk i)) (cells i) = []"
    by (rule segments_masked)
  then show "floodVectors i = []"
    by (simp add: floodVectors_def reduceToVectors_def)
next
  assume a: "set (flooded i) \<noteq> {} \<and> contiguous (set (flooded i))"
  let ?img = "selfMask (floodRisk i)"
  have "\<exists>seg. segments ?img (cells i) = [(1, seg)] \<and> set seg = {p \<in> set (cells i). px ?img p \<noteq> None}"
  proof (rule segments_single)
    show "{p \<in> set (cells i). px ?img p \<noteq> None} \<noteq> {}"
      unfolding unmasked_selfMask using a by blast
    show "\<forall>p\<in>set (cells i). px ?img p = None \<or> px ?img p = Some 1"
      by (simp add: px_selfMask_floodRisk)
    show "contiguous {p \<in> set (cells i). px ?img p \<noteq> None}"
      unfolding unmasked_selfMask using a by blast
  qed
  then obtain seg where "segments ?img (cells i) = [(1, seg)]" "set seg = set (flooded i)"
    unfolding unmasked_selfMask by blast
  then show "\<exists>seg. floodVectors i =
                [\<lparr>geometry = Some seg,
                  properties = [(''count'', IntProp (int (length seg))), (''flood'', IntProp 1)]\<rparr>]
             \<and> set seg = set (flooded i)"
    by (simp add: floodVectors_def reduceToVectors_def)
qed

theorem floodVectors_examples:
  "set (flooded (run_cell 10 100)) = {} \<and> floodVectors (run_cell 10 100) = [] \<and>
   set (flooded run_grid) \<noteq> {} \<and> contiguous (set (flooded run_grid)) \<and>
   (\<exists>seg. floodVectors run_grid =
             [\<lparr>geometry = Some seg,
               properties = [(''count'', IntProp (int (length seg))), (''flood'', IntProp 1)]\<rparr>]
          \<and> set seg = set (flooded run_grid))"
proof -
  have d: "set (flooded (run_cell 10 100)) = {}" by (simp add: flooded_run_cell_dry)
  have n: "set (flooded run_grid) \<noteq> {}" by (simp add: flooded_run_grid)
  show ?thesis
    using floodVectors_empty_or_single [of "run_cell 10 100"]
      floodVectors_empty_or_single [of run_grid] d n contiguous_run_grid
    by blast
qed

text \<open>
  C10. The mask is self-masked before it is vectorized, so every polygon covers only
  cells where the mask is 1, and every polygon carries the property \<^verbatim>\<open>flood\<close> with the
  value 1.
\<close>

theorem floodVectors_label:
  assumes "f \<in> set (floodVectors i)"
  shows "map_of (properties f) ''flood'' = Some (IntProp 1) \<and>
         (\<exists>seg. geometry f = Some seg \<and> seg \<noteq> [] \<and> set seg \<subseteq> set (flooded i))"
proof -
  let ?img = "selfMask (floodRisk i)"
  from assms obtain v seg where vs: "(v, seg) \<in> set (segments ?img (cells i))"
    and f: "f = \<lparr>geometry = Some seg,
                 properties = [(''count'', IntProp (int (length seg))), (''flood'', IntProp v)]\<rparr>"
    by (auto simp: floodVectors_def reduceToVectors_def)
  from segments_label [OF vs]
  have ne: "seg \<noteq> []" and sub: "set seg \<subseteq> {p \<in> set (cells i). px ?img p = Some v}" by simp_all
  from ne obtain c where "c \<in> set seg" by (cases seg) auto
  with sub have "px ?img c = Some v" by auto
  then have v: "v = 1" by (simp add: px_selfMask_floodRisk split: if_splits)
  have "set seg \<subseteq> set (flooded i)"
    using sub unmasked_selfMask [of i] by auto
  with ne v f show ?thesis by simp
qed

theorem floodVectors_label_run_grid:
  "\<lparr>geometry = Some [(0, 0), (1, 0), (0, 1)],
    properties = [(''count'', IntProp 3), (''flood'', IntProp 1)]\<rparr> \<in> set (floodVectors run_grid) \<and>
   map_of (properties \<lparr>geometry = Some [(0, 0), (1, 0), (0, 1)],
                        properties = [(''count'', IntProp 3), (''flood'', IntProp 1)]\<rparr>) ''flood''
     = Some (IntProp 1) \<and>
   set [(0, 0), (1, 0), (0, 1)] \<subseteq> set (flooded run_grid)"
proof -
  have m: "\<lparr>geometry = Some [(0, 0), (1, 0), (0, 1)],
             properties = [(''count'', IntProp 3), (''flood'', IntProp 1)]\<rparr> \<in> set (floodVectors run_grid)"
    by (simp add: floodVectors_run_grid)
  from floodVectors_label [OF m] m show ?thesis by simp
qed

section \<open>Radar and the exports\<close>

text \<open>
  C6. Two runs that differ only in the radar image have the same flood-risk mask, the same
  flood-area scalar, the same polygons and the same three export requests.
\<close>

theorem radar_not_in_decision:
  "floodRisk (i\<lparr>s1 := r\<rparr>) = floodRisk i \<and>
   floodArea_km2 (i\<lparr>s1 := r\<rparr>) = floodArea_km2 i \<and>
   floodVectors (i\<lparr>s1 := r\<rparr>) = floodVectors i \<and>
   exports (i\<lparr>s1 := r\<rparr>) = exports i"
proof -
  have h: "heavyRain (i\<lparr>s1 := r\<rparr>) = heavyRain i" by (simp add: heavyRain_def)
  have f: "floodRisk (i\<lparr>s1 := r\<rparr>) = floodRisk i" by (simp add: floodRisk_def h)
  have a: "floodArea_km2 (i\<lparr>s1 := r\<rparr>) = floodArea_km2 i"
    by (simp add: floodArea_km2_def floodArea_def pixelAreaKm2_def pixelArea_def f)
  have v: "floodVectors (i\<lparr>s1 := r\<rparr>) = floodVectors i" by (simp add: floodVectors_def f)
  have "summary (i\<lparr>s1 := r\<rparr>) = summary i" by (simp add: summary_def a)
  with f a v show ?thesis by (simp add: exports_def)
qed

text \<open>The radar image does reach the map: the layers of the two runs differ.\<close>

theorem radar_only_on_the_map:
  "floodRisk (run_grid\<lparr>s1 := radar\<rparr>) = floodRisk run_grid \<and>
   floodArea_km2 (run_grid\<lparr>s1 := radar\<rparr>) = floodArea_km2 run_grid \<and>
   floodVectors (run_grid\<lparr>s1 := radar\<rparr>) = floodVectors run_grid \<and>
   exports (run_grid\<lparr>s1 := radar\<rparr>) = exports run_grid \<and>
   layers (run_grid\<lparr>s1 := radar\<rparr>) \<noteq> layers run_grid"
proof -
  have "px radar (0, 0) \<noteq> px (s1 run_grid) (0, 0)" by (simp add: radar_def run_grid_def)
  then have "radar \<noteq> s1 run_grid" by auto
  then have "layers (run_grid\<lparr>s1 := radar\<rparr>) \<noteq> layers run_grid" by (simp add: layers_def)
  with radar_not_in_decision [where i = run_grid and r = radar] show ?thesis by simp
qed

text \<open>
  The three export requests of any run: the flood-risk mask cast to bytes, a single-band
  image; the polygons as a shapefile; and a table of one row with the one column
  \<^verbatim>\<open>FloodArea_km2\<close>, which holds the scalar of line 54.
\<close>

lemma exports_value:
  "\<exists>a. floodArea_km2 i = Inr a \<and>
       exports i =
         [ImageToDrive (toByte (floodRisk i)) ''MahanadiBasin_FloodRiskRaster'' ''GEE_Exports''
            ''MahanadiBasin_FloodRiskRaster'' aoi 30 (10 ^ 13),
          TableToDrive (Inr (floodVectors i)) ''MahanadiBasin_FloodRiskPolygons'' ''GEE_Exports''
            ''MahanadiBasin_FloodRiskPolygons'' ''SHP'',
          TableToDrive (Inr [\<lparr>geometry = None, properties = [(''FloodArea_km2'', RealProp a)]\<rparr>])
            ''MahanadiBasin_FloodAreaSummary'' ''GEE_Exports'' ''MahanadiBasin_FloodAreaSummary'' ''CSV''] \<and>
       band (toByte (floodRisk i)) = ''FloodRisk''"
  by (simp add: exports_def summary_def floodArea_km2_value toByte_def floodRisk_def rename_def)

text \<open>
  C8. The claim: the summary export is a table of one row and one column,
  \<^verbatim>\<open>FloodArea_km2\<close>, whose value is the flood area in square kilometres; the other two
  exports are the byte raster of the mask and the shapefile of the polygons. On the
  two-by-two run the three requests have that shape, but the flooded area is 0.0027
  square kilometres and the row holds 1.
\<close>

theorem summary_export_not_the_area:
  "exports run_grid =
     [ImageToDrive (toByte (floodRisk run_grid)) ''MahanadiBasin_FloodRiskRaster'' ''GEE_Exports''
        ''MahanadiBasin_FloodRiskRaster'' aoi 30 (10 ^ 13),
      TableToDrive (Inr (floodVectors run_grid)) ''MahanadiBasin_FloodRiskPolygons'' ''GEE_Exports''
        ''MahanadiBasin_FloodRiskPolygons'' ''SHP'',
      TableToDrive (Inr [\<lparr>geometry = None, properties = [(''FloodArea_km2'', RealProp 1)]\<rparr>])
        ''MahanadiBasin_FloodAreaSummary'' ''GEE_Exports'' ''MahanadiBasin_FloodAreaSummary'' ''CSV''] \<and>
   sum_list (map (\<lambda>p. cellArea run_grid p / 1000000) (flooded run_grid)) = 27 / 10000"
proof -
  have s: "sum_list (map (\<lambda>p. cellArea run_grid p / 1000000) (flooded run_grid)) = 27 / 10000"
    by (simp add: flooded_run_grid) (simp add: run_grid_def)
  have "floodArea_km2 run_grid = Inr 1"
    by (simp add: floodArea_km2_value s)
  with s show ?thesis
    by (simp add: exports_def summary_def)
qed

end
